theory Spec2Isabelle
  imports Complex_Main "HOL-Library.AList"
begin

section \<open>JavaScript values and exceptions\<close>

text \<open>
  The handlers of \<^verbatim>\<open>src/server.ts\<close> work on values typed \<^verbatim>\<open>any\<close>: the rows the
  store returns and whatever \<^verbatim>\<open>JSON.parse\<close> makes of the reasoning model's text.
  They are modelled as a datatype of JavaScript values. An object is the list of its own
  properties in insertion order (keys distinct); \<open>JUndefined\<close> is the value of a
  missing property and never occurs inside parsed JSON. Numbers are taken as reals.
\<close>

datatype jsval =
    JUndefined
  | JNull
  | JBool bool
  | JNum real
  | JStr string
  | JArr "jsval list"
  | JObj "(string \<times> jsval) list"

text \<open>What a handler's \<^verbatim>\<open>catch (e)\<close> receives.\<close>

datatype error =
    TypeError
  | ProviderError string
  | StoreError string

type_synonym row = "(string \<times> jsval) list"

text \<open>\<^verbatim>\<open>r.k\<close> on an object: the property's value, \<^verbatim>\<open>undefined\<close> when it is missing.\<close>

definition field :: "row \<Rightarrow> string \<Rightarrow> jsval" where
  "field r k = (case map_of r k of Some v \<Rightarrow> v | None \<Rightarrow> JUndefined)"

text \<open>
  \<^verbatim>\<open>x.k\<close> on any value, for a key \<open>k\<close> that no built-in prototype defines (\<^verbatim>\<open>title\<close>,
  \<^verbatim>\<open>reason\<close>): reading a property of \<^verbatim>\<open>null\<close> or \<^verbatim>\<open>undefined\<close> throws, a
  primitive or an array has no such property.
\<close>

fun get_prop :: "jsval \<Rightarrow> string \<Rightarrow> error + jsval" where
  "get_prop JUndefined k = Inl TypeError"
| "get_prop JNull k = Inl TypeError"
| "get_prop (JObj kvs) k = Inr (field kvs k)"
| "get_prop v k = Inr JUndefined"

text \<open>\<^verbatim>\<open>a ?? b\<close>\<close>

fun nullish :: "jsval \<Rightarrow> jsval \<Rightarrow> jsval" where
  "nullish JUndefined b = b"
| "nullish JNull b = b"
| "nullish a b = a"

text \<open>
  \<^verbatim>\<open>v?.toLowerCase()\<close>: \<^verbatim>\<open>undefined\<close> (here \<open>None\<close>) when \<open>v\<close> is nullish, the
  lower-cased string when \<open>v\<close> is a string, and a TypeError otherwise, since no other
  JSON value has a callable \<^verbatim>\<open>toLowerCase\<close>. The library function
  \<^verbatim>\<open>String.prototype.toLowerCase\<close> itself is the parameter \<open>lc\<close>.
\<close>

fun opt_toLowerCase :: "(string \<Rightarrow> string) \<Rightarrow> jsval \<Rightarrow> error + string option" where
  "opt_toLowerCase lc JUndefined = Inr None"
| "opt_toLowerCase lc JNull = Inr None"
| "opt_toLowerCase lc (JStr s) = Inr (Some (lc s))"
| "opt_toLowerCase lc v = Inl TypeError"

text \<open>A \<^verbatim>\<open>map\<close> whose callback may throw: the first exception leaves the loop.\<close>

fun map_throw :: "('a \<Rightarrow> error + 'b) \<Rightarrow> 'a list \<Rightarrow> error + 'b list" where
  "map_throw f [] = Inr []"
| "map_throw f (x # xs) =
     (case f x of
        Inl e \<Rightarrow> Inl e
      | Inr y \<Rightarrow> (case map_throw f xs of Inl e \<Rightarrow> Inl e | Inr ys \<Rightarrow> Inr (y # ys)))"

section \<open>Rerank-merge\<close>

text \<open>
  The predicate of \<^verbatim>\<open>reranked.find\<close> (server.ts, line 213):
  \<^verbatim>\<open>(x) => x.title?.toLowerCase() === r.title?.toLowerCase()\<close>,
  the left operand evaluated first.
\<close>

definition title_matches :: "(string \<Rightarrow> string) \<Rightarrow> row \<Rightarrow> jsval \<Rightarrow> error + bool" where
  "title_matches lc r x =
     (case get_prop x ''title'' of
        Inl e \<Rightarrow> Inl e
      | Inr xt \<Rightarrow>
         (case opt_toLowerCase lc xt of
            Inl e \<Rightarrow> Inl e
          | Inr a \<Rightarrow>
             (case opt_toLowerCase lc (field r ''title'') of
                Inl e \<Rightarrow> Inl e
              | Inr b \<Rightarrow> Inr (a = b))))"

text \<open>\<^verbatim>\<open>Array.prototype.find\<close>: the first element the predicate accepts, else \<^verbatim>\<open>undefined\<close>.\<close>

fun find_first :: "('a \<Rightarrow> error + bool) \<Rightarrow> 'a list \<Rightarrow> error + 'a option" where
  "find_first p [] = Inr None"
| "find_first p (x # xs) =
     (case p x of
        Inl e \<Rightarrow> Inl e
      | Inr True \<Rightarrow> Inr (Some x)
      | Inr False \<Rightarrow> find_first p xs)"

text \<open>
  \<^verbatim>\<open>reranked.find(...)\<close> where \<^verbatim>\<open>reranked\<close> is whatever was parsed: only an array has
  a \<^verbatim>\<open>find\<close> method; on \<^verbatim>\<open>null\<close> the property read throws, on any other JSON value
  \<^verbatim>\<open>find\<close> is not a function.
\<close>

fun find_reranked :: "(string \<Rightarrow> string) \<Rightarrow> jsval \<Rightarrow> row \<Rightarrow> error + jsval" where
  "find_reranked lc (JArr xs) r =
     (case find_first (title_matches lc r) xs of
        Inl e \<Rightarrow> Inl e
      | Inr None \<Rightarrow> Inr JUndefined
      | Inr (Some x) \<Rightarrow> Inr x)"
| "find_reranked lc v r = Inl TypeError"

text \<open>\<^verbatim>\<open>found?.reason\<close>\<close>

fun opt_reason :: "jsval \<Rightarrow> error + jsval" where
  "opt_reason JUndefined = Inr JUndefined"
| "opt_reason JNull = Inr JUndefined"
| "opt_reason v = get_prop v ''reason''"

text \<open>
  The callback of line 212--215. The object literal \<^verbatim>\<open>{ ...r, why: v }\<close> copies the
  properties of \<open>r\<close> in order and then assigns \<^verbatim>\<open>why\<close>: in place when \<open>r\<close> has the
  key, as a new last property otherwise, which is what \<^const>\<open>AList.update\<close> does.
\<close>

definition merge_reason :: "(string \<Rightarrow> string) \<Rightarrow> jsval \<Rightarrow> row \<Rightarrow> error + row" where
  "merge_reason lc reranked r =
     (case find_reranked lc reranked r of
        Inl e \<Rightarrow> Inl e
      | Inr found \<Rightarrow>
         (case opt_reason found of
            Inl e \<Rightarrow> Inl e
          | Inr reason \<Rightarrow> Inr (AList.update ''why'' (nullish reason JNull) r)))"

definition withReason :: "(string \<Rightarrow> string) \<Rightarrow> jsval \<Rightarrow> row list \<Rightarrow> error + row list" where
  "withReason lc reranked sliced = map_throw (merge_reason lc reranked) sliced"

section \<open>The runtime and the external services\<close>

text \<open>
  Library functions of the JavaScript runtime and the three external services are
  parameters of the model: \<open>toLowerCase\<close> is \<^verbatim>\<open>String.prototype.toLowerCase\<close>,
  \<open>to_string\<close> the conversion a template literal applies to an interpolated value,
  \<open>JSON_parse\<close> returns \<open>None\<close> where \<^verbatim>\<open>JSON.parse\<close> throws a SyntaxError,
  \<open>embed\<close> is the embedding model, \<open>generateContent\<close> the reasoning model (its
  \<^verbatim>\<open>response.text()\<close>), and \<open>rpc_match_movies\<close> the remote call of the SQL function
  \<^verbatim>\<open>match_movies\<close>, whose \<^verbatim>\<open>{ data, error }\<close> is a sum. A failed service call
  is \<open>Inl\<close>.
\<close>

record env =
  toLowerCase :: "string \<Rightarrow> string"
  to_string :: "jsval \<Rightarrow> string"
  JSON_parse :: "string \<Rightarrow> jsval option"
  JSON_stringify :: "jsval \<Rightarrow> string"
  embed :: "string \<Rightarrow> error + real list"
  generateContent :: "string \<Rightarrow> error + string"
  rpc_match_movies :: "real list \<Rightarrow> int \<Rightarrow> real \<Rightarrow> error + row list"

record config =
  DEFAULT_TOP_N :: int
  DEFAULT_SIM_THRESHOLD :: real

datatype 'a response = Ok200 'a | Bad400 | Fail500 error

text \<open>JavaScript truthiness, as the conditional operator tests it.\<close>

fun truthy :: "jsval \<Rightarrow> bool" where
  "truthy JUndefined = False"
| "truthy JNull = False"
| "truthy (JBool b) = b"
| "truthy (JNum n) = (n \<noteq> 0)"
| "truthy (JStr s) = (s \<noteq> [])"
| "truthy (JArr xs) = True"
| "truthy (JObj kvs) = True"

text \<open>\<^verbatim>\<open>Array.prototype.join\<close> on strings.\<close>

fun join_str :: "string \<Rightarrow> string list \<Rightarrow> string" where
  "join_str sep [] = []"
| "join_str sep [x] = x"
| "join_str sep (x # y # ys) = x @ sep @ join_str sep (y # ys)"

definition newline :: string where
  "newline = [CHR 0x0A]"

section \<open>Text canonicalizer\<close>

text \<open>A movie as \<^verbatim>\<open>MovieSchema\<close> (lines 68--75) leaves it: defaults filled in, no \<^verbatim>\<open>id\<close>.\<close>

record movie =
  title :: string
  year :: "int option"
  genres :: "string list"
  cast :: "string list"
  plot :: string
  metadata :: row

text \<open>\<^verbatim>\<open>joinAnswers\<close>, lines 89--96.\<close>

definition joinAnswers :: "env \<Rightarrow> string list \<Rightarrow> string" where
  "joinAnswers rt answers =
     join_str newline
       ([''You are building a movie preference profile from questionnaire answers.'',
         ''Summarize consistent tastes implicitly. Answers:'']
        @ map (\<lambda>(i, a). ''Q'' @ to_string rt (JNum (real (i + 1))) @ '': '' @ a)
            (enumerate 0 answers))"

text \<open>
  \<^verbatim>\<open>movieTextForEmbedding\<close>, lines 98--107. Each line is guarded by the truthiness of
  what the source tests: the number \<^verbatim>\<open>m.year\<close>, the lengths, the string \<^verbatim>\<open>m.plot\<close>
  and the object \<^verbatim>\<open>m.metadata\<close>; \<^verbatim>\<open>filter(Boolean)\<close> then drops the empty strings.
\<close>

definition movieTextForEmbedding :: "env \<Rightarrow> movie \<Rightarrow> string" where
  "movieTextForEmbedding rt m =
     join_str newline
       (filter (\<lambda>s. truthy (JStr s))
          [''Title: '' @ title m,
           (case year m of
              None \<Rightarrow> []
            | Some y \<Rightarrow>
                if truthy (JNum (real_of_int y))
                then ''Year: '' @ to_string rt (JNum (real_of_int y)) else []),
           (if truthy (JNum (real (length (genres m))))
            then ''Genres: '' @ join_str '', '' (genres m) else []),
           (if truthy (JNum (real (length (cast m))))
            then ''Cast: '' @ join_str '', '' (cast m) else []),
           (if truthy (JStr (plot m)) then ''Plot: '' @ plot m else []),
           (if truthy (JObj (metadata m))
            then ''Metadata: '' @ JSON_stringify rt (JObj (metadata m)) else [])])"

section \<open>Ingestion\<close>

text \<open>
  The row object of lines 131--135. It has no \<^verbatim>\<open>id\<close> property (\<open>row_id = None\<close>): the
  assignment of line 136 is commented out and \<^verbatim>\<open>MovieSchema\<close> has no such key.
\<close>

record embedded = movie +
  embedding :: "real list"

record upsert_row = embedded +
  row_id :: "string option"

definition make_row :: "movie \<Rightarrow> real list \<Rightarrow> upsert_row" where
  "make_row m vector =
     \<lparr>title = title m, year = year m, genres = genres m, cast = cast m, plot = plot m,
      metadata = metadata m, embedding = vector, row_id = None\<rparr>"

text \<open>The loop of lines 127--138: one embedding call per movie, in order.\<close>

definition embed_rows :: "env \<Rightarrow> movie list \<Rightarrow> error + upsert_row list" where
  "embed_rows rt movies =
     map_throw
       (\<lambda>m. case embed rt (movieTextForEmbedding rt m) of
               Inl e \<Rightarrow> Inl e
             | Inr vector \<Rightarrow> Inr (make_row m vector))
       movies"

text \<open>
  \<^verbatim>\<open>MovieSchema\<close> and \<^verbatim>\<open>IngestBodySchema\<close> (lines 68--77) on the JSON body of the
  request. A \<^verbatim>\<open>z.object\<close> reads the keys it declares and strips every other key of
  the input, so an \<^verbatim>\<open>id\<close> sent with a movie does not reach the parsed value.
  \<open>None\<close> is a failed \<^verbatim>\<open>safeParse\<close>.
\<close>

fun z_string :: "jsval \<Rightarrow> string option" where
  "z_string (JStr s) = Some s"
| "z_string v = None"

text \<open>\<^verbatim>\<open>z.number().int().optional()\<close>\<close>

fun z_int_optional :: "jsval \<Rightarrow> int option option" where
  "z_int_optional JUndefined = Some None"
| "z_int_optional (JNum x) = (if x = of_int \<lfloor>x\<rfloor> then Some (Some \<lfloor>x\<rfloor>) else None)"
| "z_int_optional v = None"

text \<open>\<^verbatim>\<open>z.array(z.string()).default([])\<close>\<close>

fun z_strings_default :: "jsval \<Rightarrow> string list option" where
  "z_strings_default JUndefined = Some []"
| "z_strings_default (JArr xs) = those (map z_string xs)"
| "z_strings_default v = None"

text \<open>\<^verbatim>\<open>z.string().default('')\<close>\<close>

fun z_string_default :: "jsval \<Rightarrow> string option" where
  "z_string_default JUndefined = Some []"
| "z_string_default v = z_string v"

text \<open>\<^verbatim>\<open>z.record(z.string(), z.any()).default({})\<close>\<close>

fun z_record_default :: "jsval \<Rightarrow> row option" where
  "z_record_default JUndefined = Some []"
| "z_record_default (JObj kvs) = Some kvs"
| "z_record_default v = None"

fun MovieSchema :: "jsval \<Rightarrow> movie option" where
  "MovieSchema (JObj kvs) =
     (case (z_string (field kvs ''title''), z_int_optional (field kvs ''year''),
            z_strings_default (field kvs ''genres''), z_strings_default (field kvs ''cast''),
            z_string_default (field kvs ''plot''), z_record_default (field kvs ''metadata'')) of
        (Some t, Some y, Some g, Some c, Some p, Some md) \<Rightarrow>
          Some \<lparr>title = t, year = y, genres = g, cast = c, plot = p, metadata = md\<rparr>
      | _ \<Rightarrow> None)"
| "MovieSchema v = None"

fun IngestBodySchema :: "jsval \<Rightarrow> movie list option" where
  "IngestBodySchema (JObj kvs) =
     (case field kvs ''movies'' of
        JArr xs \<Rightarrow>
          (case those (map MovieSchema xs) of
             Some movies \<Rightarrow> if 1 \<le> length movies then Some movies else None
           | None \<Rightarrow> None)
      | _ \<Rightarrow> None)"
| "IngestBodySchema v = None"

text \<open>
  The \<^verbatim>\<open>try\<close> block of the handler, lines 125--147. The store is a state \<open>db\<close> of any
  type; \<open>upsert\<close> is the call \<^verbatim>\<open>supabase.from('movies').upsert(rows).select('id, title')\<close>,
  which returns the store's answer and the store's next state. The answer on success
  lists the identifier and title of each affected row.
\<close>

definition ingest_movies ::
  "env \<Rightarrow> (upsert_row list \<Rightarrow> 'db \<Rightarrow> (error + (string \<times> string) list) \<times> 'db)
     \<Rightarrow> movie list \<Rightarrow> 'db \<Rightarrow> (nat \<times> string list) response \<times> 'db" where
  "ingest_movies rt upsert movies db =
     (case embed_rows rt movies of
        Inl e \<Rightarrow> (Fail500 e, db)
      | Inr rows \<Rightarrow>
          (case upsert rows db of
             (Inl e, db') \<Rightarrow> (Fail500 e, db')
           | (Inr data, db') \<Rightarrow> (Ok200 (length data, map fst data), db')))"

text \<open>The handler of \<^verbatim>\<open>/api/ingest/movies\<close>, lines 119--148.\<close>

definition ingest ::
  "env \<Rightarrow> (upsert_row list \<Rightarrow> 'db \<Rightarrow> (error + (string \<times> string) list) \<times> 'db)
     \<Rightarrow> jsval \<Rightarrow> 'db \<Rightarrow> (nat \<times> string list) response \<times> 'db" where
  "ingest rt upsert body db =
     (case IngestBodySchema body of
        None \<Rightarrow> (Bad400, db)
      | Some movies \<Rightarrow> ingest_movies rt upsert movies db)"

section \<open>Recommendation\<close>

text \<open>
  The body of \<^verbatim>\<open>/api/recommend\<close> with the right types; \<^verbatim>\<open>RecommendBodySchema\<close>
  (lines 79--86) checks the ranges.
\<close>

record recommend_body =
  answers :: "string list"
  topN :: "int option"
  offset :: "int option"
  threshold :: "real option"
  rerank :: "bool option"

definition RecommendBodySchema :: "recommend_body \<Rightarrow> bool" where
  "RecommendBodySchema b =
     (1 \<le> length (answers b) \<and> length (answers b) \<le> 10
      \<and> (case topN b of None \<Rightarrow> True | Some n \<Rightarrow> 1 \<le> n \<and> n \<le> 50)
      \<and> (case offset b of None \<Rightarrow> True | Some k \<Rightarrow> 0 \<le> k \<and> k \<le> 500)
      \<and> (case threshold b of None \<Rightarrow> True | Some t \<Rightarrow> 0 \<le> t \<and> t \<le> 1))"

text \<open>\<^verbatim>\<open>a ?? d\<close> on an optional field of the parsed body.\<close>

definition or_default :: "'a option \<Rightarrow> 'a \<Rightarrow> 'a" where
  "or_default a d = (case a of None \<Rightarrow> d | Some v \<Rightarrow> v)"

text \<open>
  \<^verbatim>\<open>Array.prototype.slice(start, end)\<close> on integer bounds: a negative bound counts from
  the end, both are clamped to the array.
\<close>

definition js_slice :: "int \<Rightarrow> int \<Rightarrow> 'a list \<Rightarrow> 'a list" where
  "js_slice start end xs =
     (let len = int (length xs);
          k = (if start < 0 then max (len + start) 0 else min start len);
          final = (if end < 0 then max (len + end) 0 else min end len)
      in take (nat (final - k)) (drop (nat k) xs))"

text \<open>
  Lines 161--173: the profile, its embedding, the remote call with
  \<^verbatim>\<open>match_count: topN + offset\<close> and the slice. The stage returns the profile too, which
  the rerank prompt uses.
\<close>

definition retrieve :: "config \<Rightarrow> env \<Rightarrow> recommend_body \<Rightarrow> error + string \<times> row list" where
  "retrieve cfg rt b =
     (let topN = or_default (topN b) (DEFAULT_TOP_N cfg);
          offset = or_default (offset b) 0;
          threshold = or_default (threshold b) (DEFAULT_SIM_THRESHOLD cfg);
          profile = joinAnswers rt (answers b)
      in case embed rt profile of
           Inl e \<Rightarrow> Inl e
         | Inr qvec \<Rightarrow>
             (case rpc_match_movies rt qvec (topN + offset) threshold of
                Inl e \<Rightarrow> Inl e
              | Inr data \<Rightarrow> Inr (profile, js_slice offset (offset + topN) data)))"

text \<open>The object literal of lines 178--186, its properties in the order written.\<close>

definition project :: "row \<Rightarrow> row" where
  "project r =
     [(''id'', field r ''id''),
      (''title'', field r ''title''),
      (''year'', field r ''year''),
      (''genres'', field r ''genres''),
      (''score'', field r ''score''),
      (''why'', nullish (field r ''why'') JNull),
      (''metadata'', field r ''metadata'')]"

text \<open>
  \<^verbatim>\<open>r.genres?.join(', ')\<close>: \<^verbatim>\<open>join\<close> turns \<^verbatim>\<open>null\<close> and \<^verbatim>\<open>undefined\<close> elements into
  the empty string; a value that is neither nullish nor an array has no \<^verbatim>\<open>join\<close>.
\<close>

fun join_element :: "env \<Rightarrow> jsval \<Rightarrow> string" where
  "join_element rt JUndefined = []"
| "join_element rt JNull = []"
| "join_element rt v = to_string rt v"

fun opt_join :: "env \<Rightarrow> jsval \<Rightarrow> error + jsval" where
  "opt_join rt JUndefined = Inr JUndefined"
| "opt_join rt JNull = Inr JUndefined"
| "opt_join rt (JArr xs) = Inr (JStr (join_str '', '' (map (join_element rt) xs)))"
| "opt_join rt v = Inl TypeError"

text \<open>Lines 191--202.\<close>

definition listForLLM :: "env \<Rightarrow> row list \<Rightarrow> error + string" where
  "listForLLM rt sliced =
     (case map_throw
             (\<lambda>(i, r). case opt_join rt (field r ''genres'') of
                          Inl e \<Rightarrow> Inl e
                        | Inr g \<Rightarrow>
                            Inr (to_string rt (JNum (real (i + 1))) @ ''. ''
                                 @ to_string rt (field r ''title'') @ '' (''
                                 @ to_string rt (field r ''year'') @ '') | genres=''
                                 @ to_string rt g))
             (enumerate 0 sliced) of
        Inl e \<Rightarrow> Inl e
      | Inr ls \<Rightarrow> Inr (join_str newline ls))"

definition rerankPrompt :: "string \<Rightarrow> string \<Rightarrow> string" where
  "rerankPrompt profile list =
     join_str newline
       [''Rank movies 1..N for best match to the given preference profile.'',
        ''Respond ONLY as JSON array of {title, reason} in best-to-worst order.'',
        [],
        ''Preference profile (from answers):'' @ newline @ profile,
        [],
        ''Candidates:'' @ newline @ list]"

text \<open>
  Lines 208--209: \<^verbatim>\<open>let reranked = []; try { reranked = JSON.parse(text || '[]') } catch {}\<close>.
\<close>

definition parse_reranked :: "env \<Rightarrow> string \<Rightarrow> jsval" where
  "parse_reranked rt text =
     (case JSON_parse rt (if truthy (JStr text) then text else ''[]'') of
        None \<Rightarrow> JArr []
      | Some v \<Rightarrow> v)"

text \<open>Lines 190--215, the path taken when \<^verbatim>\<open>rerank\<close> is true.\<close>

definition rerank_stage :: "env \<Rightarrow> string \<Rightarrow> row list \<Rightarrow> error + row list" where
  "rerank_stage rt profile sliced =
     (case listForLLM rt sliced of
        Inl e \<Rightarrow> Inl e
      | Inr list \<Rightarrow>
          (case generateContent rt (rerankPrompt profile list) of
             Inl e \<Rightarrow> Inl e
           | Inr text \<Rightarrow> withReason (toLowerCase rt) (parse_reranked rt text) sliced))"

text \<open>
  The handler, lines 151--222: 400 on a body the schema rejects, 500 with the exception
  on anything thrown inside the \<^verbatim>\<open>try\<close>, otherwise 200 with the candidates.
\<close>

definition recommend :: "config \<Rightarrow> env \<Rightarrow> recommend_body \<Rightarrow> row list response" where
  "recommend cfg rt b =
     (if \<not> RecommendBodySchema b then Bad400
      else
        case retrieve cfg rt b of
          Inl e \<Rightarrow> Fail500 e
        | Inr (profile, sliced) \<Rightarrow>
            if \<not> or_default (rerank b) False then Ok200 (map project sliced)
            else
              (case rerank_stage rt profile sliced of
                 Inl e \<Rightarrow> Fail500 e
               | Inr merged \<Rightarrow> Ok200 merged))"

section \<open>The store\<close>

text \<open>
  The table \<^verbatim>\<open>public.movies\<close> of the SQL at the end of server.ts: rows keyed by the
  primary key \<^verbatim>\<open>id\<close>, in physical order.
\<close>

type_synonym table = "(string \<times> embedded) list"

definition columns :: "upsert_row \<Rightarrow> embedded" where
  "columns r =
     \<lparr>title = title r, year = year r, genres = genres r, cast = cast r, plot = plot r,
      metadata = metadata r, embedding = embedding r\<rparr>"

text \<open>
  \<^verbatim>\<open>upsert(rows).select('id, title')\<close> on that table: a row with an \<^verbatim>\<open>id\<close> replaces the
  row of that key or is inserted under it; a row without one gets the column default
  \<^verbatim>\<open>gen_random_uuid()\<close>, here \<open>gen\<close> applied to the keys in use, and is inserted.
\<close>

fun upsert_rows :: "(string list \<Rightarrow> string) \<Rightarrow> upsert_row list \<Rightarrow> table
                     \<Rightarrow> (string \<times> string) list \<times> table" where
  "upsert_rows gen [] tbl = ([], tbl)"
| "upsert_rows gen (r # rs) tbl =
     (let k = (case row_id r of Some i \<Rightarrow> i | None \<Rightarrow> gen (map fst tbl));
          (out, tbl') = upsert_rows gen rs (AList.update k (columns r) tbl)
      in ((k, title r) # out, tbl'))"

definition store_upsert :: "(string list \<Rightarrow> string) \<Rightarrow> upsert_row list \<Rightarrow> table
                             \<Rightarrow> (error + (string \<times> string) list) \<times> table" where
  "store_upsert gen rows tbl = (case upsert_rows gen rows tbl of (out, tbl') \<Rightarrow> (Inr out, tbl'))"

text \<open>One row of the table that \<^verbatim>\<open>match_movies\<close> returns (lines 259--267).\<close>

definition result_row :: "string \<Rightarrow> embedded \<Rightarrow> real \<Rightarrow> row" where
  "result_row k m s =
     [(''id'', JStr k),
      (''title'', JStr (title m)),
      (''year'', (case year m of None \<Rightarrow> JNull | Some y \<Rightarrow> JNum (real_of_int y))),
      (''genres'', JArr (map JStr (genres m))),
      (''plot'', JStr (plot m)),
      (''metadata'', JObj (metadata m)),
      (''score'', JNum s)]"

text \<open>
  The SQL function \<^verbatim>\<open>match_movies\<close> (lines 254--281): the rows whose similarity
  \<open>1 - distance\<close> reaches the threshold, by ascending distance, at most
  \<^verbatim>\<open>match_count\<close> of them. The cosine distance \<^verbatim>\<open><=>\<close> of pgvector is the parameter
  \<open>distance\<close>; rows at the same distance stay in table order.
\<close>

definition match_movies ::
  "(real list \<Rightarrow> real list \<Rightarrow> real) \<Rightarrow> table \<Rightarrow> real list \<Rightarrow> int \<Rightarrow> real \<Rightarrow> error + row list" where
  "match_movies distance tbl query_embedding match_count sim_threshold =
     (if match_count < 0 then Inl (StoreError ''LIMIT must not be negative'')
      else
        Inr (map (\<lambda>(k, m). result_row k m (1 - distance (embedding m) query_embedding))
               (take (nat match_count)
                  (sort_key (\<lambda>(k, m). distance (embedding m) query_embedding)
                     (filter (\<lambda>(k, m). sim_threshold \<le> 1 - distance (embedding m) query_embedding)
                        tbl)))))"

section \<open>Well-formed inputs\<close>

text \<open>
  A parsed rerank list in the sense of the prompt, \<^verbatim>\<open>JSON array of {title, reason}\<close>: an
  array of objects whose \<^verbatim>\<open>title\<close>, when it is there and not \<^verbatim>\<open>null\<close>, is a string. A
  candidate row likewise carries a string title (the column is \<^verbatim>\<open>text not null\<close>) or none.
\<close>

fun title_ok :: "jsval \<Rightarrow> bool" where
  "title_ok JUndefined = True"
| "title_ok JNull = True"
| "title_ok (JStr s) = True"
| "title_ok v = False"

fun is_entry :: "jsval \<Rightarrow> bool" where
  "is_entry (JObj kvs) = title_ok (field kvs ''title'')"
| "is_entry v = False"

fun rerank_list :: "jsval \<Rightarrow> bool" where
  "rerank_list (JArr xs) = list_all is_entry xs"
| "rerank_list v = False"

text \<open>The lower-cased title of a parsed entry, when it has a string title.\<close>

fun lowered_title :: "(string \<Rightarrow> string) \<Rightarrow> jsval \<Rightarrow> string option" where
  "lowered_title lc (JObj kvs) =
     (case field kvs ''title'' of JStr s \<Rightarrow> Some (lc s) | _ \<Rightarrow> None)"
| "lowered_title lc v = None"

text \<open>The reason a matched entry contributes: \<^verbatim>\<open>found?.reason ?? null\<close> on an object.\<close>

fun reason_or_null :: "jsval option \<Rightarrow> jsval" where
  "reason_or_null None = JNull"
| "reason_or_null (Some (JObj kvs)) = nullish (field kvs ''reason'') JNull"
| "reason_or_null (Some v) = JNull"

text \<open>The rows above the similarity threshold, as the \<^verbatim>\<open>where\<close> clause of \<^verbatim>\<open>match_movies\<close> selects them.\<close>

definition above_threshold ::
  "(real list \<Rightarrow> real list \<Rightarrow> real) \<Rightarrow> table \<Rightarrow> real list \<Rightarrow> real \<Rightarrow> table" where
  "above_threshold distance tbl q t = filter (\<lambda>(k, m). t \<le> 1 - distance (embedding m) q) tbl"

section \<open>A concrete environment\<close>

text \<open>
  A small instance of the runtime and the services, on which the handlers are evaluated
  below. \<open>ascii_toLowerCase\<close> is \<^verbatim>\<open>toLowerCase\<close> on ASCII text; \<open>parse_table\<close> agrees with
  \<^verbatim>\<open>JSON.parse\<close> on the three texts it lists and stands for a SyntaxError elsewhere;
  \<open>print_json\<close> agrees with \<^verbatim>\<open>JSON.stringify\<close> on strings without escapes,
  \<^verbatim>\<open>null\<close> and the empty object; \<open>print_value\<close> agrees with template
  interpolation on strings, \<^verbatim>\<open>null\<close> and \<^verbatim>\<open>undefined\<close> and prints a placeholder
  for any other value. What they print only reaches the texts sent to the two models,
  which this instance answers with a fixed vector and a fixed reply.
\<close>

definition ascii_toLowerCase :: "string \<Rightarrow> string" where
  "ascii_toLowerCase s =
     map (\<lambda>c. case map_of (zip ''ABCDEFGHIJKLMNOPQRSTUVWXYZ'' ''abcdefghijklmnopqrstuvwxyz'') c of
                Some l \<Rightarrow> l
              | None \<Rightarrow> c) s"

fun print_value :: "jsval \<Rightarrow> string" where
  "print_value (JStr s) = s"
| "print_value JNull = ''null''"
| "print_value JUndefined = ''undefined''"
| "print_value v = ''#''"

fun print_json :: "jsval \<Rightarrow> string" where
  "print_json (JObj []) = ''{}''"
| "print_json JNull = ''null''"
| "print_json (JStr s) = [CHR 0x22] @ s @ [CHR 0x22]"
| "print_json v = ''[]''"

definition parse_table :: "string \<Rightarrow> jsval option" where
  "parse_table s =
     (if s = ''[]'' then Some (JArr [])
      else if s = ''{}'' then Some (JObj [])
      else if s = ''[null]'' then Some (JArr [JNull])
      else None)"

definition line_distance :: "real list \<Rightarrow> real list \<Rightarrow> real" where
  "line_distance a b = (case (a, b) of (x # _, y # _) \<Rightarrow> \<bar>x - y\<bar> | _ \<Rightarrow> 1)"

definition film :: "string \<Rightarrow> real \<Rightarrow> embedded" where
  "film t x =
     \<lparr>title = t, year = None, genres = [], cast = [], plot = ''p'', metadata = [],
      embedding = [x]\<rparr>"

definition three_films :: table where
  "three_films = [(''a'', film ''Heat'' (1/10)), (''b'', film ''Big'' (1/2)), (''c'', film ''HEAT'' (3/10))]"

definition services :: "string \<Rightarrow> env" where
  "services reply =
     \<lparr>toLowerCase = ascii_toLowerCase, to_string = print_value, JSON_parse = parse_table,
      JSON_stringify = print_json, embed = (\<lambda>text. Inr [0]),
      generateContent = (\<lambda>prompt. Inr reply),
      rpc_match_movies = match_movies line_distance three_films\<rparr>"

definition defaults :: config where
  "defaults = \<lparr>DEFAULT_TOP_N = 5, DEFAULT_SIM_THRESHOLD = 1/4\<rparr>"

definition request :: "int \<Rightarrow> int \<Rightarrow> real \<Rightarrow> bool \<Rightarrow> recommend_body" where
  "request n k t r =
     \<lparr>answers = [''crime''], topN = Some n, offset = Some k, threshold = Some t,
      rerank = Some r\<rparr>"

text \<open>A key generator that never returns a key in use: longer than all of them.\<close>

definition next_key :: "string list \<Rightarrow> string" where
  "next_key ks = CHR ''u'' # concat ks"

text \<open>Two ingest bodies of one movie each, the second one sent with an \<^verbatim>\<open>id\<close>.\<close>

definition inception :: jsval where
  "inception =
     JObj [(''movies'',
            JArr [JObj [(''title'', JStr ''Inception''), (''year'', JNum 2010),
                        (''genres'', JArr [JStr ''Sci-Fi'']), (''plot'', JStr ''dream heist'')]])]"

definition inception_with_id :: "string \<Rightarrow> jsval" where
  "inception_with_id k =
     JObj [(''movies'',
            JArr [JObj [(''id'', JStr k), (''title'', JStr ''Inception''), (''year'', JNum 2010),
                        (''genres'', JArr [JStr ''Sci-Fi'']), (''plot'', JStr ''dream heist'')]])]"

text \<open>The row both of them store, once embedded by \<open>services\<close>.\<close>

definition inception_row :: embedded where
  "inception_row =
     \<lparr>title = ''Inception'', year = Some 2010, genres = [''Sci-Fi''], cast = [],
      plot = ''dream heist'', metadata = [], embedding = [0]\<rparr>"

text \<open>An embedding model that is out of quota for every text but one.\<close>

definition only_embeds :: "string \<Rightarrow> env" where
  "only_embeds text =
     (services [])\<lparr>embed := (\<lambda>s. if s = text then Inr [0] else Inl (ProviderError ''quota''))\<rparr>"

definition two_movies :: jsval where
  "two_movies =
     JObj [(''movies'', JArr [JObj [(''title'', JStr ''A'')], JObj [(''title'', JStr ''B'')]])]"

section \<open>Exceptions in loops\<close>

lemma map_throw_length: "map_throw f xs = Inr ys \<Longrightarrow> length ys = length xs"
  by (induction xs arbitrary: ys) (auto split: sum.splits)

lemma map_throw_nth:
  "map_throw f xs = Inr ys \<Longrightarrow> i < length xs \<Longrightarrow> f (xs ! i) = Inr (ys ! i)"
proof (induction xs arbitrary: ys i)
  case Nil
  then show ?case by simp
next
  case (Cons x xs)
  then show ?case
    by (cases i) (auto split: sum.splits)
qed

lemma map_throw_total:
  "(\<And>x. x \<in> set xs \<Longrightarrow> \<exists>y. f x = Inr y) \<Longrightarrow> \<exists>ys. map_throw f xs = Inr ys"
proof (induction xs)
  case Nil
  then show ?case by simp
next
  case (Cons x xs)
  then obtain y where "f x = Inr y" by fastforce
  moreover from Cons obtain ys where "map_throw f xs = Inr ys" by fastforce
  ultimately show ?case by simp
qed

section \<open>Rerank-merge only annotates\<close>

lemma merge_reason_shape:
  "merge_reason lc reranked r = Inr r' \<Longrightarrow> \<exists>v. v \<noteq> JUndefined \<and> r' = AList.update ''why'' v r"
proof -
  have n: "nullish a JNull \<noteq> JUndefined" for a by (cases a) auto
  assume "merge_reason lc reranked r = Inr r'"
  then show ?thesis unfolding merge_reason_def
    using n by (fastforce split: sum.splits)
qed

lemma field_update_other: "k \<noteq> k' \<Longrightarrow> field (AList.update k' v r) k = field r k"
  by (simp add: field_def update_conv')

lemma field_update_same: "field (AList.update k v r) k = v"
  by (simp add: field_def update_conv')

lemma find_first_total:
  "(\<And>x. x \<in> set xs \<Longrightarrow> \<exists>b. p x = Inr b) \<Longrightarrow> \<exists>res. find_first p xs = Inr res"
proof (induction xs)
  case Nil
  then show ?case by simp
next
  case (Cons x xs)
  then obtain b where "p x = Inr b" by fastforce
  moreover from Cons obtain res where "find_first p xs = Inr res" by fastforce
  ultimately show ?case by (cases b) simp_all
qed

lemma find_first_mem: "find_first p xs = Inr (Some x) \<Longrightarrow> x \<in> set xs \<and> p x = Inr True"
  by (induction xs) (auto split: sum.splits bool.splits)

lemma title_ok_lower: "title_ok v \<Longrightarrow> \<exists>a. opt_toLowerCase lc v = Inr a"
  by (cases v) auto

lemma title_matches_total:
  "is_entry x \<Longrightarrow> title_ok (field r ''title'') \<Longrightarrow> \<exists>b. title_matches lc r x = Inr b"
proof (cases x)
  case (JObj kvs)
  assume "is_entry x" and r: "title_ok (field r ''title'')"
  with JObj have "title_ok (field kvs ''title'')" by simp
  then obtain a where a: "opt_toLowerCase lc (field kvs ''title'') = Inr a"
    using title_ok_lower by blast
  from r obtain b where b: "opt_toLowerCase lc (field r ''title'') = Inr b"
    using title_ok_lower by blast
  show ?thesis using JObj a b by (simp add: title_matches_def)
qed auto

lemma merge_reason_total:
  assumes "rerank_list reranked" and "title_ok (field r ''title'')"
  shows "\<exists>r'. merge_reason lc reranked r = Inr r'"
proof -
  from assms(1) obtain xs where xs: "reranked = JArr xs" "list_all is_entry xs"
    by (cases reranked) auto
  have "\<exists>res. find_first (title_matches lc r) xs = Inr res"
    using xs(2) assms(2) by (intro find_first_total title_matches_total) (auto simp: list_all_iff)
  then obtain res where res: "find_first (title_matches lc r) xs = Inr res" ..
  show ?thesis
  proof (cases res)
    case None
    with res xs show ?thesis by (simp add: merge_reason_def)
  next
    case (Some x)
    with res have "x \<in> set xs" using find_first_mem by fastforce
    with xs(2) have "is_entry x" by (simp add: list_all_iff)
    then obtain kvs where "x = JObj kvs" by (cases x) auto
    with res Some xs show ?thesis by (simp add: merge_reason_def)
  qed
qed

lemma withReason_frame:
  assumes "withReason lc reranked sliced = Inr out"
  shows "length out = length sliced"
    and "i < length sliced \<Longrightarrow>
           \<exists>v. v \<noteq> JUndefined \<and> out ! i = AList.update ''why'' v (sliced ! i)"
proof -
  from assms have m: "map_throw (merge_reason lc reranked) sliced = Inr out"
    by (simp add: withReason_def)
  then show "length out = length sliced"
    by (rule map_throw_length)
  assume "i < length sliced"
  with m have "merge_reason lc reranked (sliced ! i) = Inr (out ! i)"
    by (rule map_throw_nth)
  then show "\<exists>v. v \<noteq> JUndefined \<and> out ! i = AList.update ''why'' v (sliced ! i)"
    by (rule merge_reason_shape)
qed

lemma withReason_total:
  assumes "rerank_list reranked" and "\<forall>r\<in>set sliced. title_ok (field r ''title'')"
  shows "\<exists>out. withReason lc reranked sliced = Inr out"
  unfolding withReason_def using assms
  by (intro map_throw_total merge_reason_total) auto

text \<open>
  C1. Rerank-merge is a frame around \<^verbatim>\<open>why\<close>: whenever it returns, the result has the
  length of the paginated candidate sequence and its \<open>i\<close>-th element is the \<open>i\<close>-th
  candidate with the property \<^verbatim>\<open>why\<close> set and nothing else touched, so that \<^verbatim>\<open>id\<close>,
  \<^verbatim>\<open>title\<close>, \<^verbatim>\<open>year\<close>, \<^verbatim>\<open>genres\<close>, \<^verbatim>\<open>score\<close> and \<^verbatim>\<open>metadata\<close> read as before.
  And it does return for every parsed rerank list and every sequence of candidates with
  string titles.
\<close>

theorem withReason_only_sets_why:
  "(\<forall>out. withReason lc reranked sliced = Inr out \<longrightarrow>
      length out = length sliced
      \<and> (\<forall>i<length sliced.
            (\<exists>v. v \<noteq> JUndefined \<and> out ! i = AList.update ''why'' v (sliced ! i))
            \<and> (\<forall>k. k \<noteq> ''why'' \<longrightarrow> field (out ! i) k = field (sliced ! i) k)))
   \<and> (rerank_list reranked \<and> (\<forall>r\<in>set sliced. title_ok (field r ''title''))
        \<longrightarrow> (\<exists>out. withReason lc reranked sliced = Inr out))"
proof -
  have frame: "length out = length sliced
      \<and> (\<forall>i<length sliced.
            (\<exists>v. v \<noteq> JUndefined \<and> out ! i = AList.update ''why'' v (sliced ! i))
            \<and> (\<forall>k. k \<noteq> ''why'' \<longrightarrow> field (out ! i) k = field (sliced ! i) k))"
    if ok: "withReason lc reranked sliced = Inr out" for out
  proof -
    have "(\<exists>v. v \<noteq> JUndefined \<and> out ! i = AList.update ''why'' v (sliced ! i))
            \<and> (\<forall>k. k \<noteq> ''why'' \<longrightarrow> field (out ! i) k = field (sliced ! i) k)"
      if "i < length sliced" for i
    proof -
      from withReason_frame(2)[OF ok that]
      obtain v where v: "v \<noteq> JUndefined" "out ! i = AList.update ''why'' v (sliced ! i)"
        by blast
      then show ?thesis by (auto simp: field_update_other)
    qed
    with withReason_frame(1)[OF ok] show ?thesis by blast
  qed
  from frame withReason_total show ?thesis by blast
qed

theorem withReason_only_sets_why_witness:
  "rerank_list (JArr [JObj [(''title'', JStr ''HEAT''), (''reason'', JStr ''tense'')]])
   \<and> title_ok (field [(''title'', JStr ''Heat''), (''score'', JNum (9/10))] ''title'')
   \<and> withReason ascii_toLowerCase
         (JArr [JObj [(''title'', JStr ''HEAT''), (''reason'', JStr ''tense'')]])
         [[(''title'', JStr ''Heat''), (''score'', JNum (9/10))]]
       = Inr [[(''title'', JStr ''Heat''), (''score'', JNum (9/10)), (''why'', JStr ''tense'')]]
   \<and> field [(''title'', JStr ''Heat''), (''score'', JNum (9/10)), (''why'', JStr ''tense'')] ''score''
       = field [(''title'', JStr ''Heat''), (''score'', JNum (9/10))] ''score''"
  using withReason_only_sets_why [of ascii_toLowerCase
      "JArr [JObj [(''title'', JStr ''HEAT''), (''reason'', JStr ''tense'')]]"
      "[[(''title'', JStr ''Heat''), (''score'', JNum (9/10))]]"]
  by (simp add: withReason_def merge_reason_def title_matches_def field_def ascii_toLowerCase_def)

section \<open>Duplicate titles\<close>

lemma title_matches_lowered:
  assumes "field r ''title'' = JStr t" and "title_matches lc r x = Inr b"
  shows "b = (lowered_title lc x = Some (lc t))"
proof (cases x)
  case (JObj kvs)
  with assms show ?thesis
    by (cases "field kvs ''title''") (auto simp: title_matches_def)
qed (use assms in \<open>auto simp: title_matches_def\<close>)

lemma find_first_is_find:
  assumes "field r ''title'' = JStr t"
  shows "find_first (title_matches lc r) xs = Inr res
         \<Longrightarrow> res = List.find (\<lambda>x. lowered_title lc x = Some (lc t)) xs"
proof (induction xs)
  case Nil
  then show ?case by simp
next
  case (Cons x xs)
  then obtain b where b: "title_matches lc r x = Inr b"
    by (auto split: sum.splits)
  then have "b = (lowered_title lc x = Some (lc t))"
    using assms title_matches_lowered by blast
  with Cons b show ?case by (cases b) auto
qed

lemma find_Some_holds: "List.find P xs = Some x \<Longrightarrow> P x"
  by (induction xs) (auto split: if_splits)

lemma merge_reason_first:
  assumes "merge_reason lc reranked r = Inr r'" and "field r ''title'' = JStr t"
  shows "\<exists>xs. reranked = JArr xs
           \<and> r' = AList.update ''why''
                    (reason_or_null (List.find (\<lambda>x. lowered_title lc x = Some (lc t)) xs)) r"
proof -
  from assms(1) obtain xs where xs: "reranked = JArr xs"
    by (cases reranked) (simp_all add: merge_reason_def)
  from assms(1) obtain res where res: "find_first (title_matches lc r) xs = Inr res"
    unfolding xs merge_reason_def by (cases "find_first (title_matches lc r) xs") simp_all
  then have f: "List.find (\<lambda>x. lowered_title lc x = Some (lc t)) xs = res"
    using assms(2) find_first_is_find by blast
  have "r' = AList.update ''why'' (reason_or_null res) r"
  proof (cases res)
    case None
    with assms(1) res show ?thesis
      unfolding xs merge_reason_def by simp
  next
    case (Some x)
    with f have "List.find (\<lambda>x. lowered_title lc x = Some (lc t)) xs = Some x"
      by simp
    from find_Some_holds[OF this] have "lowered_title lc x = Some (lc t)" .
    then obtain kvs where "x = JObj kvs" by (cases x) simp_all
    with assms(1) res Some show ?thesis
      unfolding xs merge_reason_def by simp
  qed
  with xs f show ?thesis by simp
qed

text \<open>
  C10. When rerank-merge returns, two candidates whose titles are equal after
  lower-casing carry the same \<^verbatim>\<open>why\<close>: each is given the reason of the first parsed entry
  whose lower-cased title equals its own, or \<^verbatim>\<open>null\<close> when there is none.
\<close>

theorem duplicate_titles_same_why:
  assumes "withReason lc reranked sliced = Inr out"
    and "i < length sliced" and "j < length sliced"
    and "field (sliced ! i) ''title'' = JStr s" and "field (sliced ! j) ''title'' = JStr t"
    and "lc s = lc t"
  shows "field (out ! i) ''why'' = field (out ! j) ''why''
         \<and> (\<exists>xs. reranked = JArr xs
               \<and> field (out ! i) ''why''
                   = reason_or_null (List.find (\<lambda>x. lowered_title lc x = Some (lc s)) xs))"
proof -
  from assms(1) have m: "map_throw (merge_reason lc reranked) sliced = Inr out"
    by (simp add: withReason_def)
  have "merge_reason lc reranked (sliced ! i) = Inr (out ! i)"
    using m assms(2) by (rule map_throw_nth)
  from merge_reason_first[OF this assms(4)] obtain xs where
    i: "reranked = JArr xs"
       "out ! i = AList.update ''why''
          (reason_or_null (List.find (\<lambda>x. lowered_title lc x = Some (lc s)) xs)) (sliced ! i)"
    by blast
  have "merge_reason lc reranked (sliced ! j) = Inr (out ! j)"
    using m assms(3) by (rule map_throw_nth)
  from merge_reason_first[OF this assms(5)] i(1) have
    j: "out ! j = AList.update ''why''
          (reason_or_null (List.find (\<lambda>x. lowered_title lc x = Some (lc t)) xs)) (sliced ! j)"
    by auto
  from i j assms(6) show ?thesis
    by (simp add: field_update_same)
qed

theorem duplicate_titles_same_why_witness:
  "withReason ascii_toLowerCase
     (JArr [JObj [(''title'', JStr ''heat''), (''reason'', JStr ''first'')],
            JObj [(''title'', JStr ''HEAT''), (''reason'', JStr ''second'')]])
     [[(''title'', JStr ''Heat'')], [(''title'', JStr ''HEAT'')]]
   = Inr [[(''title'', JStr ''Heat''), (''why'', JStr ''first'')],
          [(''title'', JStr ''HEAT''), (''why'', JStr ''first'')]]
   \<and> ascii_toLowerCase ''Heat'' = ascii_toLowerCase ''HEAT''
   \<and> field ([[(''title'', JStr ''Heat''), (''why'', JStr ''first'')],
              [(''title'', JStr ''HEAT''), (''why'', JStr ''first'')]] ! 0) ''why''
       = field ([[(''title'', JStr ''Heat''), (''why'', JStr ''first'')],
                 [(''title'', JStr ''HEAT''), (''why'', JStr ''first'')]] ! 1) ''why''"
proof -
  let ?R = "JArr [JObj [(''title'', JStr ''heat''), (''reason'', JStr ''first'')],
                  JObj [(''title'', JStr ''HEAT''), (''reason'', JStr ''second'')]]"
  let ?S = "[[(''title'', JStr ''Heat'')], [(''title'', JStr ''HEAT'')]] :: row list"
  let ?O = "[[(''title'', JStr ''Heat''), (''why'', JStr ''first'')],
             [(''title'', JStr ''HEAT''), (''why'', JStr ''first'')]] :: row list"
  have run: "withReason ascii_toLowerCase ?R ?S = Inr ?O"
    by (simp add: withReason_def merge_reason_def title_matches_def field_def
        ascii_toLowerCase_def)
  have low: "ascii_toLowerCase ''Heat'' = ascii_toLowerCase ''HEAT''"
    by (simp add: ascii_toLowerCase_def)
  have "field (?O ! 0) ''why'' = field (?O ! 1) ''why''"
    using duplicate_titles_same_why [OF run, of 0 1 "''Heat''" "''HEAT''", OF _ _ _ _ low]
    by (simp add: field_def)
  with run low show ?thesis by blast
qed

section \<open>The pagination window\<close>

lemma js_slice_window:
  assumes "0 \<le> k" and "0 \<le> n"
  shows "js_slice k (k + n) xs = take (nat n) (drop (nat k) xs)"
proof (cases "k \<le> int (length xs)")
  case True
  with assms show ?thesis
    by (auto simp: js_slice_def Let_def min_def intro!: take_all_iff[THEN iffD2] nth_equalityI)
next
  case False
  with assms show ?thesis
    by (simp add: js_slice_def Let_def min_def)
qed

lemma set_js_slice: "set (js_slice i j xs) \<subseteq> set xs"
  unfolding js_slice_def Let_def
  by (meson set_take_subset set_drop_subset subset_trans)

lemma js_slice_map: "js_slice i j (map f xs) = map f (js_slice i j xs)"
  by (simp add: js_slice_def Let_def take_map drop_map)

lemma sorted_wrt_js_slice: "sorted_wrt P xs \<Longrightarrow> sorted_wrt P (js_slice i j xs)"
  by (simp add: js_slice_def Let_def sorted_wrt_take sorted_wrt_drop)


section \<open>What the recommend handler returns\<close>

lemma retrieve_Inr:
  assumes "retrieve cfg rt b = Inr (profile, sliced)"
  shows "\<exists>qvec data.
           embed rt (joinAnswers rt (answers b)) = Inr qvec
           \<and> rpc_match_movies rt qvec
                 (or_default (topN b) (DEFAULT_TOP_N cfg) + or_default (offset b) 0)
                 (or_default (threshold b) (DEFAULT_SIM_THRESHOLD cfg)) = Inr data
           \<and> profile = joinAnswers rt (answers b)
           \<and> sliced = js_slice (or_default (offset b) 0)
                 (or_default (offset b) 0 + or_default (topN b) (DEFAULT_TOP_N cfg)) data"
  using assms unfolding retrieve_def Let_def
  by (auto split: sum.splits)

lemma retrieve_run:
  assumes "embed rt (joinAnswers rt (answers b)) = Inr qvec"
    and "rpc_match_movies rt qvec
           (or_default (topN b) (DEFAULT_TOP_N cfg) + or_default (offset b) 0)
           (or_default (threshold b) (DEFAULT_SIM_THRESHOLD cfg)) = Inr data"
  shows "retrieve cfg rt b =
           Inr (joinAnswers rt (answers b),
                js_slice (or_default (offset b) 0)
                  (or_default (offset b) 0 + or_default (topN b) (DEFAULT_TOP_N cfg)) data)"
  using assms unfolding retrieve_def Let_def by simp

lemma recommend_Ok:
  assumes "recommend cfg rt b = Ok200 cs"
  shows "\<exists>profile sliced.
           RecommendBodySchema b \<and> retrieve cfg rt b = Inr (profile, sliced)
           \<and> (if or_default (rerank b) False then rerank_stage rt profile sliced = Inr cs
               else cs = map project sliced)"
proof -
  from assms have v: "RecommendBodySchema b"
    unfolding recommend_def by (auto split: if_splits)
  with assms obtain profile sliced where r: "retrieve cfg rt b = Inr (profile, sliced)"
    unfolding recommend_def by (cases "retrieve cfg rt b") auto
  with assms v show ?thesis
    unfolding recommend_def by (auto split: if_splits sum.splits)
qed

lemma rerank_stage_Inr:
  assumes "rerank_stage rt profile sliced = Inr cs"
  shows "\<exists>reranked. withReason (toLowerCase rt) reranked sliced = Inr cs"
  using assms unfolding rerank_stage_def by (auto split: sum.splits)

lemma field_project:
  "k \<in> {''id'', ''title'', ''year'', ''genres'', ''score'', ''metadata''}
   \<Longrightarrow> field (project r) k = field r k"
  by (auto simp: project_def field_def)

lemma withReason_field:
  assumes "withReason lc reranked sliced = Inr out" and "k \<noteq> ''why''"
  shows "map (\<lambda>c. field c k) out = map (\<lambda>r. field r k) sliced"
proof (rule nth_equalityI)
  show "length (map (\<lambda>c. field c k) out) = length (map (\<lambda>r. field r k) sliced)"
    using withReason_frame(1)[OF assms(1)] by simp
next
  fix i
  assume "i < length (map (\<lambda>c. field c k) out)"
  then have i: "i < length sliced"
    using withReason_frame(1)[OF assms(1)] by simp
  from withReason_frame(2)[OF assms(1) i] assms(2)
  have "field (out ! i) k = field (sliced ! i) k"
    by (auto simp: field_update_other)
  with i withReason_frame(1)[OF assms(1)]
  show "map (\<lambda>c. field c k) out ! i = map (\<lambda>r. field r k) sliced ! i"
    by simp
qed

lemma candidates_field:
  assumes "recommend cfg rt b = Ok200 cs" and "retrieve cfg rt b = Inr (profile, sliced)"
    and "k \<in> {''id'', ''title'', ''year'', ''genres'', ''score'', ''metadata''}"
  shows "map (\<lambda>c. field c k) cs = map (\<lambda>r. field r k) sliced"
proof (cases "or_default (rerank b) False")
  case True
  with recommend_Ok[OF assms(1)] assms(2) have "rerank_stage rt profile sliced = Inr cs"
    by auto
  then obtain reranked where "withReason (toLowerCase rt) reranked sliced = Inr cs"
    using rerank_stage_Inr by blast
  moreover from assms(3) have "k \<noteq> ''why''" by auto
  ultimately show ?thesis by (rule withReason_field)
next
  case False
  with recommend_Ok[OF assms(1)] assms(2) have "cs = map project sliced"
    by auto
  with assms(3) show ?thesis
    by (simp add: field_project del: insert_iff)
qed

section \<open>What the SQL function returns\<close>

lemma field_result_row_score: "field (result_row k m s) ''score'' = JNum s"
  by (simp add: result_row_def field_def)

lemma match_movies_length:
  assumes "0 \<le> c"
  shows "\<exists>data. match_movies distance tbl q c t = Inr data
           \<and> length data = min (nat c) (length (above_threshold distance tbl q t))"
  using assms by (simp add: match_movies_def above_threshold_def)

lemma match_movies_above:
  assumes "match_movies distance tbl q c t = Inr data"
  shows "\<forall>r\<in>set data. \<exists>s. field r ''score'' = JNum s \<and> t \<le> s"
proof
  fix r
  assume "r \<in> set data"
  with assms obtain k m where
    km: "(k, m) \<in> set (take (nat c) (sort_key (\<lambda>(k, m). distance (embedding m) q)
              (filter (\<lambda>(k, m). t \<le> 1 - distance (embedding m) q) tbl)))"
    and r: "r = result_row k m (1 - distance (embedding m) q)"
    by (auto simp: match_movies_def split: if_splits)
  from km have "(k, m) \<in> set (filter (\<lambda>(k, m). t \<le> 1 - distance (embedding m) q) tbl)"
    by (auto dest: in_set_takeD)
  then have "t \<le> 1 - distance (embedding m) q" by simp
  with r show "\<exists>s. field r ''score'' = JNum s \<and> t \<le> s"
    by (simp add: field_result_row_score)
qed

lemma match_movies_sorted:
  assumes "match_movies distance tbl q c t = Inr data"
  shows "\<exists>ss. map (\<lambda>r. field r ''score'') data = map JNum ss \<and> sorted_wrt (\<ge>) ss"
proof -
  let ?d = "\<lambda>(k, m). distance (embedding m) q"
  let ?ys = "take (nat c) (sort_key ?d (filter (\<lambda>(k, m). t \<le> 1 - distance (embedding m) q) tbl))"
  from assms have data: "data = map (\<lambda>(k, m). result_row k m (1 - distance (embedding m) q)) ?ys"
    by (auto simp: match_movies_def split: if_splits)
  have "sorted (map ?d ?ys)"
    by (simp add: sorted_wrt_take flip: take_map)
  then have "sorted_wrt (\<lambda>a b. ?d a \<le> ?d b) ?ys"
    by (simp add: sorted_wrt_map)
  then have "sorted_wrt (\<lambda>a b. 1 - ?d a \<ge> 1 - ?d b) ?ys"
    by (rule sorted_wrt_mono_rel[rotated]) simp
  then have s: "sorted_wrt (\<ge>) (map (\<lambda>a. 1 - ?d a) ?ys)"
    by (simp add: sorted_wrt_map)
  have "map (\<lambda>r. field r ''score'') data = map JNum (map (\<lambda>a. 1 - ?d a) ?ys)"
    unfolding data by (auto simp: field_result_row_score)
  with s show ?thesis by blast
qed

section \<open>Retrieval\<close>

text \<open>
  C2. The handler asks the store for \<open>topN + offset\<close> rows above the threshold, drops
  the first \<open>offset\<close> rows of the answer and keeps up to \<open>topN\<close> of the rest. When the
  embedding succeeds and the remote call is the SQL function \<^verbatim>\<open>match_movies\<close> over a
  table, the store's answer \<open>data\<close> holds the \<open>available\<close> rows above the threshold,
  capped at \<open>topN + offset\<close>; the retrieved window is \<open>take topN (drop offset data)\<close>,
  of length \<open>min topN (max 0 (available - offset))\<close> and empty when
  \<open>available \<le> offset\<close>. Every successful response carries exactly the rows of that
  window, in order: without rerank the request always succeeds with their projections,
  and on either path the candidates have the window's length and its \<^verbatim>\<open>id\<close>,
  \<^verbatim>\<open>title\<close>, \<^verbatim>\<open>year\<close>, \<^verbatim>\<open>genres\<close>, \<^verbatim>\<open>score\<close> and \<^verbatim>\<open>metadata\<close>.
\<close>

theorem recommend_window_size:
  fixes cfg rt b distance tbl qvec
  defines "n \<equiv> or_default (topN b) (DEFAULT_TOP_N cfg)"
    and "k \<equiv> or_default (offset b) 0"
    and "t \<equiv> or_default (threshold b) (DEFAULT_SIM_THRESHOLD cfg)"
  defines "available \<equiv> int (length (above_threshold distance tbl qvec t))"
  assumes valid: "RecommendBodySchema b"
    and dflt: "0 \<le> DEFAULT_TOP_N cfg"
    and emb: "embed rt (joinAnswers rt (answers b)) = Inr qvec"
    and rpc: "rpc_match_movies rt qvec (n + k) t = match_movies distance tbl qvec (n + k) t"
  shows "\<exists>data.
           match_movies distance tbl qvec (n + k) t = Inr data
           \<and> int (length data) = min (n + k) available
           \<and> retrieve cfg rt b
               = Inr (joinAnswers rt (answers b), take (nat n) (drop (nat k) data))
           \<and> int (length (take (nat n) (drop (nat k) data))) = min n (max 0 (available - k))
           \<and> (available \<le> k \<longrightarrow> take (nat n) (drop (nat k) data) = [])
           \<and> (\<forall>cs. recommend cfg rt b = Ok200 cs \<longrightarrow>
                 int (length cs) = min n (max 0 (available - k))
                 \<and> (available \<le> k \<longrightarrow> cs = [])
                 \<and> (\<forall>key\<in>{''id'', ''title'', ''year'', ''genres'', ''score'', ''metadata''}.
                       map (\<lambda>c. field c key) cs
                         = map (\<lambda>r. field r key) (take (nat n) (drop (nat k) data))))
           \<and> (\<not> or_default (rerank b) False \<longrightarrow>
                 recommend cfg rt b = Ok200 (map project (take (nat n) (drop (nat k) data))))"
proof -
  from valid dflt have n0: "0 \<le> n" and k0: "0 \<le> k"
    by (auto simp: RecommendBodySchema_def n_def k_def or_default_def split: option.splits)
  then have "0 \<le> n + k" by simp
  from match_movies_length[OF this, of distance tbl qvec t] obtain data where
    mm: "match_movies distance tbl qvec (n + k) t = Inr data"
    and len: "length data = min (nat (n + k)) (length (above_threshold distance tbl qvec t))"
    by auto
  from mm rpc have data: "rpc_match_movies rt qvec (n + k) t = Inr data"
    by simp
  define window where "window = take (nat n) (drop (nat k) data)"
  have "js_slice k (k + n) data = window"
    unfolding window_def using k0 n0 by (rule js_slice_window)
  then have r: "retrieve cfg rt b = Inr (joinAnswers rt (answers b), window)"
    using retrieve_run[OF emb, of cfg data] data
    by (simp add: n_def k_def t_def)
  from len n0 k0 have dlen: "int (length data) = min (n + k) available"
    by (auto simp: available_def)
  from len n0 k0 have size: "int (length window) = min n (max 0 (available - k))"
    by (auto simp: available_def window_def)
  with n0 have empty: "available \<le> k \<longrightarrow> window = []"
    by auto
  have ok: "int (length cs) = min n (max 0 (available - k))
            \<and> (available \<le> k \<longrightarrow> cs = [])
            \<and> (\<forall>key\<in>{''id'', ''title'', ''year'', ''genres'', ''score'', ''metadata''}.
                  map (\<lambda>c. field c key) cs = map (\<lambda>r. field r key) window)"
    if c: "recommend cfg rt b = Ok200 cs" for cs
  proof -
    have same: "map (\<lambda>c. field c key) cs = map (\<lambda>r. field r key) window"
      if "key \<in> {''id'', ''title'', ''year'', ''genres'', ''score'', ''metadata''}" for key
      using c r that by (rule candidates_field)
    from same[of "''score''"]
    have "map (\<lambda>c. field c ''score'') cs = map (\<lambda>r. field r ''score'') window" by simp
    then have l: "length cs = length window" by (rule map_eq_imp_length_eq)
    with size have "int (length cs) = min n (max 0 (available - k))" by simp
    moreover from l empty have "available \<le> k \<longrightarrow> cs = []" by auto
    ultimately show ?thesis using same by blast
  qed
  have plain: "\<not> or_default (rerank b) False \<longrightarrow> recommend cfg rt b = Ok200 (map project window)"
    using valid r by (simp add: recommend_def)
  have "match_movies distance tbl qvec (n + k) t = Inr data
           \<and> int (length data) = min (n + k) available
           \<and> retrieve cfg rt b = Inr (joinAnswers rt (answers b), window)
           \<and> int (length window) = min n (max 0 (available - k))
           \<and> (available \<le> k \<longrightarrow> window = [])
           \<and> (\<forall>cs. recommend cfg rt b = Ok200 cs \<longrightarrow>
                 int (length cs) = min n (max 0 (available - k))
                 \<and> (available \<le> k \<longrightarrow> cs = [])
                 \<and> (\<forall>key\<in>{''id'', ''title'', ''year'', ''genres'', ''score'', ''metadata''}.
                       map (\<lambda>c. field c key) cs = map (\<lambda>r. field r key) window))
           \<and> (\<not> or_default (rerank b) False \<longrightarrow>
                 recommend cfg rt b = Ok200 (map project window))"
    using mm dlen r size empty ok plain by blast
  then show ?thesis unfolding window_def by (rule exI)
qed

theorem recommend_window_size_witness:
  "RecommendBodySchema (request 1 1 (1/4) False)
   \<and> 0 \<le> DEFAULT_TOP_N defaults
   \<and> embed (services ''x'') (joinAnswers (services ''x'') (answers (request 1 1 (1/4) False)))
       = Inr [0]
   \<and> int (length (above_threshold line_distance three_films [0] (1/4))) = 3
   \<and> match_movies line_distance three_films [0] (1 + 1) (1/4)
       = Inr [result_row ''a'' (film ''Heat'' (1/10)) (9/10),
              result_row ''c'' (film ''HEAT'' (3/10)) (7/10)]
   \<and> recommend defaults (services ''x'') (request 1 1 (1/4) False)
       = Ok200 [project (result_row ''c'' (film ''HEAT'' (3/10)) (7/10))]
   \<and> recommend defaults (services ''x'') (request 1 0 (1/4) False)
       = Ok200 [project (result_row ''a'' (film ''Heat'' (1/10)) (9/10))]
   \<and> recommend defaults (services ''x'') (request 5 5 (1/4) False) = Ok200 []"
proof -
  let ?b = "request 1 1 (1/4) False"
  have v: "RecommendBodySchema ?b"
    by (simp add: RecommendBodySchema_def request_def)
  have d: "0 \<le> DEFAULT_TOP_N defaults"
    by (simp add: defaults_def)
  have e: "embed (services ''x'') (joinAnswers (services ''x'') (answers ?b)) = Inr [0]"
    by (simp add: services_def)
  have rpc: "rpc_match_movies (services ''x'') [0] c t = match_movies line_distance three_films [0] c t"
    for c t
    by (simp add: services_def)
  have a: "int (length (above_threshold line_distance three_films [0] (1/4))) = 3"
    by (simp add: above_threshold_def three_films_def line_distance_def film_def)
  have mm: "match_movies line_distance three_films [0] (1 + 1) (1/4)
              = Inr [result_row ''a'' (film ''Heat'' (1/10)) (9/10),
                     result_row ''c'' (film ''HEAT'' (3/10)) (7/10)]"
    by (simp add: match_movies_def three_films_def line_distance_def film_def)
  from recommend_window_size [OF v d e rpc] obtain data where
    ans: "match_movies line_distance three_films [0]
        (or_default (topN ?b) (DEFAULT_TOP_N defaults) + or_default (offset ?b) 0)
        (or_default (threshold ?b) (DEFAULT_SIM_THRESHOLD defaults)) = Inr data"
    and res: "\<not> or_default (rerank ?b) False \<longrightarrow>
           recommend defaults (services ''x'') ?b
             = Ok200 (map project (take (nat (or_default (topN ?b) (DEFAULT_TOP_N defaults)))
                        (drop (nat (or_default (offset ?b) 0)) data)))"
    by blast
  from ans mm have data: "data = [result_row ''a'' (film ''Heat'' (1/10)) (9/10),
                                  result_row ''c'' (film ''HEAT'' (3/10)) (7/10)]"
    by (simp add: request_def or_default_def)
  from res have page2: "recommend defaults (services ''x'') ?b
          = Ok200 [project (result_row ''c'' (film ''HEAT'' (3/10)) (7/10))]"
    unfolding data by (simp add: request_def or_default_def)
  have page1: "recommend defaults (services ''x'') (request 1 0 (1/4) False)
          = Ok200 [project (result_row ''a'' (film ''Heat'' (1/10)) (9/10))]"
    by (simp add: recommend_def RecommendBodySchema_def request_def retrieve_def or_default_def
      services_def defaults_def match_movies_def three_films_def line_distance_def film_def
      js_slice_def)
  have none: "recommend defaults (services ''x'') (request 5 5 (1/4) False) = Ok200 []"
    by (simp add: recommend_def RecommendBodySchema_def request_def retrieve_def or_default_def
      services_def defaults_def match_movies_def three_films_def line_distance_def film_def
      result_row_def js_slice_def)
  from v d e a mm page2 page1 none show ?thesis by blast
qed

text \<open>
  C3. Given a store that answers a query of threshold \<open>t\<close> only with rows of score at
  least \<open>t\<close>, every candidate of a successful response has a score of at least the
  request's threshold: the slice only removes rows, and neither the projection nor the
  rerank-merge touches \<^verbatim>\<open>score\<close>.
\<close>

theorem recommend_scores_above_threshold:
  fixes cfg rt b
  defines "t \<equiv> or_default (threshold b) (DEFAULT_SIM_THRESHOLD cfg)"
  assumes contract: "\<And>q c data. rpc_match_movies rt q c t = Inr data
                       \<Longrightarrow> \<forall>r\<in>set data. \<exists>s. field r ''score'' = JNum s \<and> t \<le> s"
    and ok: "recommend cfg rt b = Ok200 cs"
  shows "\<forall>c\<in>set cs. \<exists>s. field c ''score'' = JNum s \<and> t \<le> s"
proof -
  from recommend_Ok[OF ok] obtain profile sliced where
    r: "retrieve cfg rt b = Inr (profile, sliced)" by blast
  from retrieve_Inr[OF r] obtain qvec data where
    data: "rpc_match_movies rt qvec
             (or_default (topN b) (DEFAULT_TOP_N cfg) + or_default (offset b) 0) t = Inr data"
    and sliced: "sliced = js_slice (or_default (offset b) 0)
                   (or_default (offset b) 0 + or_default (topN b) (DEFAULT_TOP_N cfg)) data"
    unfolding t_def by blast
  have "set sliced \<subseteq> set data"
    unfolding sliced by (rule set_js_slice)
  with contract[OF data]
  have above: "\<forall>r\<in>set sliced. \<exists>s. field r ''score'' = JNum s \<and> t \<le> s"
    by (simp add: subset_iff)
  from candidates_field[OF ok r, of "''score''"]
  have "map (\<lambda>c. field c ''score'') cs = map (\<lambda>r. field r ''score'') sliced" by simp
  then have same: "map (\<lambda>c. field c ''score'') cs = map (\<lambda>r. field r ''score'') sliced" .
  show ?thesis
  proof
    fix c
    assume "c \<in> set cs"
    then have "field c ''score'' \<in> set (map (\<lambda>c. field c ''score'') cs)" by simp
    then have "field c ''score'' \<in> set (map (\<lambda>r. field r ''score'') sliced)"
      by (simp only: same)
    then obtain r where "r \<in> set sliced" "field c ''score'' = field r ''score''"
      by auto
    with above show "\<exists>s. field c ''score'' = JNum s \<and> t \<le> s"
      by auto
  qed
qed

theorem recommend_scores_above_threshold_witness:
  "(\<exists>c1 c2. recommend defaults (services ''[]'') (request 2 0 (6/10) True) = Ok200 [c1, c2]
       \<and> field c1 ''score'' = JNum (9/10) \<and> field c2 ''score'' = JNum (7/10))
   \<and> (6/10 :: real) \<le> 7/10"
proof -
  let ?a = "[(''id'', JStr ''a''), (''title'', JStr ''Heat''), (''year'', JNull),
    (''genres'', JArr []), (''plot'', JStr ''p''), (''metadata'', JObj []),
    (''score'', JNum (9 / 10)), (''why'', JNull)]"
  let ?c = "[(''id'', JStr ''c''), (''title'', JStr ''HEAT''), (''year'', JNull),
    (''genres'', JArr []), (''plot'', JStr ''p''), (''metadata'', JObj []),
    (''score'', JNum (7 / 10)), (''why'', JNull)]"
  have run: "recommend defaults (services ''[]'') (request 2 0 (6/10) True) = Ok200 [?a, ?c]"
    by (simp add: recommend_def RecommendBodySchema_def request_def retrieve_def or_default_def
      services_def defaults_def match_movies_def three_films_def line_distance_def film_def
      result_row_def js_slice_def field_def rerank_stage_def listForLLM_def parse_reranked_def
      parse_table_def withReason_def merge_reason_def)
  have contract: "rpc_match_movies (services ''[]'') q c
          (or_default (threshold (request 2 0 (6/10) True)) (DEFAULT_SIM_THRESHOLD defaults))
            = Inr data
        \<Longrightarrow> \<forall>r\<in>set data. \<exists>s. field r ''score'' = JNum s
              \<and> or_default (threshold (request 2 0 (6/10) True)) (DEFAULT_SIM_THRESHOLD defaults) \<le> s"
    for q c data
    by (simp add: services_def match_movies_above)
  have "\<forall>c\<in>set [?a, ?c]. \<exists>s. field c ''score'' = JNum s
           \<and> or_default (threshold (request 2 0 (6/10) True)) (DEFAULT_SIM_THRESHOLD defaults) \<le> s"
    using contract by (rule recommend_scores_above_threshold[OF _ run])
  then have "\<forall>c\<in>set [?a, ?c]. \<exists>s. field c ''score'' = JNum s \<and> 6/10 \<le> s"
    by (simp add: request_def or_default_def)
  then have "(6/10 :: real) \<le> 7/10"
    by (simp add: field_def)
  moreover have "field ?a ''score'' = JNum (9/10)" "field ?c ''score'' = JNum (7/10)"
    by (simp_all add: field_def)
  ultimately show ?thesis using run by blast
qed

text \<open>
  C4. Given a store that answers every query with rows in descending order of score,
  the scores of the candidates of a successful response are non-increasing: the slice
  keeps the order, and neither the projection nor the rerank-merge reorders or touches
  \<^verbatim>\<open>score\<close>.
\<close>

theorem recommend_scores_non_increasing:
  assumes contract: "\<And>q c t data. rpc_match_movies rt q c t = Inr data
                       \<Longrightarrow> \<exists>ss. map (\<lambda>r. field r ''score'') data = map JNum ss
                                \<and> sorted_wrt (\<ge>) ss"
    and ok: "recommend cfg rt b = Ok200 cs"
  shows "\<exists>ss. map (\<lambda>c. field c ''score'') cs = map JNum ss \<and> sorted_wrt (\<ge>) ss"
proof -
  from recommend_Ok[OF ok] obtain profile sliced where
    r: "retrieve cfg rt b = Inr (profile, sliced)" by blast
  from retrieve_Inr[OF r] obtain qvec data where
    data: "rpc_match_movies rt qvec
             (or_default (topN b) (DEFAULT_TOP_N cfg) + or_default (offset b) 0)
             (or_default (threshold b) (DEFAULT_SIM_THRESHOLD cfg)) = Inr data"
    and sliced: "sliced = js_slice (or_default (offset b) 0)
                   (or_default (offset b) 0 + or_default (topN b) (DEFAULT_TOP_N cfg)) data"
    by blast
  from contract[OF data] obtain ss where
    ss: "map (\<lambda>r. field r ''score'') data = map JNum ss" "sorted_wrt (\<ge>) ss"
    by blast
  let ?i = "or_default (offset b) 0"
  let ?j = "or_default (offset b) 0 + or_default (topN b) (DEFAULT_TOP_N cfg)"
  have "map (\<lambda>r. field r ''score'') sliced = js_slice ?i ?j (map (\<lambda>r. field r ''score'') data)"
    unfolding sliced by (simp add: js_slice_map)
  also have "\<dots> = map JNum (js_slice ?i ?j ss)"
    unfolding ss(1) by (simp add: js_slice_map)
  finally have "map (\<lambda>r. field r ''score'') sliced = map JNum (js_slice ?i ?j ss)" .
  moreover from candidates_field[OF ok r, of "''score''"]
  have "map (\<lambda>c. field c ''score'') cs = map (\<lambda>r. field r ''score'') sliced" by simp
  moreover have "sorted_wrt (\<ge>) (js_slice ?i ?j ss)"
    using ss(2) by (rule sorted_wrt_js_slice)
  ultimately show ?thesis by auto
qed

theorem recommend_scores_non_increasing_witness:
  "(\<exists>c1 c2. recommend defaults (services ''[]'') (request 2 0 (6/10) True) = Ok200 [c1, c2]
       \<and> field c1 ''score'' = JNum (9/10) \<and> field c2 ''score'' = JNum (7/10))
   \<and> sorted_wrt (\<ge>) [9/10, 7/10 :: real]"
proof -
  let ?a = "[(''id'', JStr ''a''), (''title'', JStr ''Heat''), (''year'', JNull),
    (''genres'', JArr []), (''plot'', JStr ''p''), (''metadata'', JObj []),
    (''score'', JNum (9 / 10)), (''why'', JNull)]"
  let ?c = "[(''id'', JStr ''c''), (''title'', JStr ''HEAT''), (''year'', JNull),
    (''genres'', JArr []), (''plot'', JStr ''p''), (''metadata'', JObj []),
    (''score'', JNum (7 / 10)), (''why'', JNull)]"
  have run: "recommend defaults (services ''[]'') (request 2 0 (6/10) True) = Ok200 [?a, ?c]"
    by (simp add: recommend_def RecommendBodySchema_def request_def retrieve_def or_default_def
      services_def defaults_def match_movies_def three_films_def line_distance_def film_def
      result_row_def js_slice_def field_def rerank_stage_def listForLLM_def parse_reranked_def
      parse_table_def withReason_def merge_reason_def)
  have contract: "rpc_match_movies (services ''[]'') q c t = Inr data
        \<Longrightarrow> \<exists>ss. map (\<lambda>r. field r ''score'') data = map JNum ss \<and> sorted_wrt (\<ge>) ss"
    for q c t data
    by (simp add: services_def match_movies_sorted)
  have "\<exists>ss. map (\<lambda>c. field c ''score'') [?a, ?c] = map JNum ss \<and> sorted_wrt (\<ge>) ss"
    using contract by (rule recommend_scores_non_increasing[OF _ run])
  then obtain ss where "map (\<lambda>c. field c ''score'') [?a, ?c] = map JNum ss" "sorted_wrt (\<ge>) ss"
    by blast
  then have "sorted_wrt (\<ge>) [9/10, 7/10 :: real]"
    by (auto simp: field_def)
  moreover have "field ?a ''score'' = JNum (9/10)" "field ?c ''score'' = JNum (7/10)"
    by (simp_all add: field_def)
  ultimately show ?thesis using run by blast
qed

section \<open>Ingestion\<close>

lemma map_throw_first_failure:
  "x \<in> set xs \<Longrightarrow> f x = Inl e \<Longrightarrow> \<exists>x'\<in>set xs. \<exists>e'. f x' = Inl e' \<and> map_throw f xs = Inl e'"
proof (induction xs)
  case Nil
  then show ?case by simp
next
  case (Cons y ys)
  show ?case
  proof (cases "f y")
    case (Inl e')
    then show ?thesis by auto
  next
    case (Inr z)
    with Cons.prems have "x \<in> set ys" by auto
    from Cons.IH[OF this Cons.prems(2)] obtain x' e' where
      "x' \<in> set ys" "f x' = Inl e'" "map_throw f ys = Inl e'" by blast
    with Inr show ?thesis by auto
  qed
qed

text \<open>
  C6. If the embedding model fails for any movie of an accepted batch, the ingestion
  request answers 500 with the failure of one of its movies, whatever the store's
  \<open>upsert\<close> would do: the call is never made, and the store is in the state it was in.
\<close>

theorem ingest_embedding_failure:
  assumes "IngestBodySchema body = Some movies"
    and "m \<in> set movies"
    and "embed rt (movieTextForEmbedding rt m) = Inl e"
  shows "\<exists>m'\<in>set movies. \<exists>e'. embed rt (movieTextForEmbedding rt m') = Inl e'
           \<and> (\<forall>upsert. ingest rt upsert body db = (Fail500 e', db))"
proof -
  let ?f = "\<lambda>m. case embed rt (movieTextForEmbedding rt m) of
                   Inl e \<Rightarrow> Inl e
                 | Inr vector \<Rightarrow> Inr (make_row m vector)"
  from assms(3) have "?f m = Inl e" by simp
  from map_throw_first_failure[of m movies ?f e, OF assms(2) this] obtain m' e' where
    m': "m' \<in> set movies" "?f m' = Inl e'" "map_throw ?f movies = Inl e'"
    by blast
  from m'(2) have "embed rt (movieTextForEmbedding rt m') = Inl e'"
    by (cases "embed rt (movieTextForEmbedding rt m')") simp_all
  moreover from m'(3) assms(1) have "ingest rt upsert body db = (Fail500 e', db)" for upsert
    by (simp add: ingest_def ingest_movies_def embed_rows_def)
  ultimately show ?thesis using m'(1) by blast
qed

theorem ingest_embedding_failure_witness:
  "IngestBodySchema two_movies
     = Some [\<lparr>title = ''A'', year = None, genres = [], cast = [], plot = [], metadata = []\<rparr>,
             \<lparr>title = ''B'', year = None, genres = [], cast = [], plot = [], metadata = []\<rparr>]
   \<and> embed (only_embeds (''Title: A'' @ newline @ ''Metadata: {}''))
         (movieTextForEmbedding (only_embeds (''Title: A'' @ newline @ ''Metadata: {}''))
            \<lparr>title = ''B'', year = None, genres = [], cast = [], plot = [], metadata = []\<rparr>)
       = Inl (ProviderError ''quota'')
   \<and> ingest (only_embeds (''Title: A'' @ newline @ ''Metadata: {}'')) (store_upsert next_key)
         two_movies [(''u'', inception_row)]
       = (Fail500 (ProviderError ''quota''), [(''u'', inception_row)])"
proof -
  let ?rt = "only_embeds (''Title: A'' @ newline @ ''Metadata: {}'')"
  let ?A = "\<lparr>title = ''A'', year = None, genres = [], cast = [], plot = [], metadata = []\<rparr>"
  let ?B = "\<lparr>title = ''B'', year = None, genres = [], cast = [], plot = [], metadata = []\<rparr>"
  have p: "IngestBodySchema two_movies = Some [?A, ?B]"
    by (simp add: two_movies_def field_def)
  have e: "embed ?rt (movieTextForEmbedding ?rt ?B) = Inl (ProviderError ''quota'')"
    by (simp add: only_embeds_def services_def movieTextForEmbedding_def newline_def)
  have eA: "embed ?rt (movieTextForEmbedding ?rt ?A) = Inr [0]"
    by (simp add: only_embeds_def services_def movieTextForEmbedding_def newline_def)
  have "?B \<in> set [?A, ?B]" by simp
  from ingest_embedding_failure[OF p this e, of "[(''u'', inception_row)]"] eA e
  have "ingest ?rt (store_upsert next_key) two_movies [(''u'', inception_row)]
          = (Fail500 (ProviderError ''quota''), [(''u'', inception_row)])"
    by auto
  with p e show ?thesis by blast
qed

text \<open>
  C7, on the code: the handler sends every row without an \<^verbatim>\<open>id\<close>, also for a movie
  that came with the identifier of a stored row, so the store inserts it under a fresh
  key next to the row it was meant to replace; sending the same batch again adds
  another copy.
\<close>

theorem ingest_with_prior_id_duplicates:
  "ingest (services []) (store_upsert next_key) (inception_with_id ''u'') [(''u'', inception_row)]
     = (Ok200 (1, [''uu'']), [(''u'', inception_row), (''uu'', inception_row)])
   \<and> ingest (services []) (store_upsert next_key) (inception_with_id ''u'')
         [(''u'', inception_row), (''uu'', inception_row)]
     = (Ok200 (1, [''uuuu'']),
        [(''u'', inception_row), (''uu'', inception_row), (''uuuu'', inception_row)])"
  by (simp add: ingest_def inception_with_id_def field_def ingest_movies_def embed_rows_def
      services_def make_row_def store_upsert_def next_key_def columns_def inception_row_def Let_def)

text \<open>
  C8, on the code: the guard of the last line tests the object \<^verbatim>\<open>m.metadata\<close>, which is
  truthy also when it is empty, so the text of a movie without attributes ends in the
  line \<^verbatim>\<open>Metadata: {}\<close>.
\<close>

theorem empty_metadata_line_present:
  "movieTextForEmbedding (services [])
     \<lparr>title = ''A'', year = None, genres = [], cast = [], plot = [], metadata = []\<rparr>
   = ''Title: A'' @ newline @ ''Metadata: {}''"
  by (simp add: movieTextForEmbedding_def services_def)

section \<open>The two shapes of a candidate\<close>

lemma project_keys:
  "map fst (project r) = [''id'', ''title'', ''year'', ''genres'', ''score'', ''why'', ''metadata'']"
  by (simp add: project_def)

lemma project_no_plot: "map_of (project r) ''plot'' = None"
  by (simp add: project_def)

text \<open>
  C9. The candidates of a successful response have one of two shapes. Without rerank
  each is the projection of a store row: exactly the properties \<^verbatim>\<open>id\<close>, \<^verbatim>\<open>title\<close>,
  \<^verbatim>\<open>year\<close>, \<^verbatim>\<open>genres\<close>, \<^verbatim>\<open>score\<close>, \<^verbatim>\<open>why\<close>, \<^verbatim>\<open>metadata\<close>, and no \<^verbatim>\<open>plot\<close>. With rerank
  each is the whole store row, \<^verbatim>\<open>plot\<close> included, with \<^verbatim>\<open>why\<close> added.
\<close>

theorem candidate_fields_by_rerank:
  assumes ok: "recommend cfg rt b = Ok200 cs"
    and r: "retrieve cfg rt b = Inr (profile, sliced)"
  shows "length cs = length sliced
         \<and> (\<not> or_default (rerank b) False \<longrightarrow>
              (\<forall>i<length cs.
                 cs ! i = project (sliced ! i)
                 \<and> map fst (cs ! i)
                     = [''id'', ''title'', ''year'', ''genres'', ''score'', ''why'', ''metadata'']
                 \<and> map_of (cs ! i) ''plot'' = None))
         \<and> (or_default (rerank b) False \<longrightarrow>
              (\<forall>i<length cs.
                 set (map fst (cs ! i)) = insert ''why'' (set (map fst (sliced ! i)))
                 \<and> (\<forall>k. k \<noteq> ''why'' \<longrightarrow> map_of (cs ! i) k = map_of (sliced ! i) k)
                 \<and> map_of (cs ! i) ''plot'' = map_of (sliced ! i) ''plot''))"
proof (cases "or_default (rerank b) False")
  case False
  with recommend_Ok[OF ok] r have cs: "cs = map project sliced" by auto
  then have "length cs = length sliced" by simp
  moreover have "cs ! i = project (sliced ! i)
                 \<and> map fst (cs ! i)
                     = [''id'', ''title'', ''year'', ''genres'', ''score'', ''why'', ''metadata'']
                 \<and> map_of (cs ! i) ''plot'' = None" if "i < length cs" for i
    using that cs by (simp add: project_keys project_no_plot)
  ultimately show ?thesis using False by blast
next
  case True
  with recommend_Ok[OF ok] r have "rerank_stage rt profile sliced = Inr cs" by auto
  then obtain reranked where w: "withReason (toLowerCase rt) reranked sliced = Inr cs"
    using rerank_stage_Inr by blast
  have len: "length cs = length sliced"
    using w by (rule withReason_frame(1))
  have "set (map fst (cs ! i)) = insert ''why'' (set (map fst (sliced ! i)))
         \<and> (\<forall>k. k \<noteq> ''why'' \<longrightarrow> map_of (cs ! i) k = map_of (sliced ! i) k)
         \<and> map_of (cs ! i) ''plot'' = map_of (sliced ! i) ''plot''" if "i < length cs" for i
  proof -
    from that len have "i < length sliced" by simp
    from withReason_frame(2)[OF w this] obtain v where
      v: "cs ! i = AList.update ''why'' v (sliced ! i)" by blast
    show ?thesis unfolding v
      by (auto simp: update_keys update_conv')
  qed
  with len True show ?thesis by blast
qed

theorem candidate_fields_by_rerank_witness:
  "recommend defaults (services ''[]'') (request 1 0 (6/10) False)
     = Ok200 [[(''id'', JStr ''a''), (''title'', JStr ''Heat''), (''year'', JNull),
               (''genres'', JArr []), (''score'', JNum (9 / 10)), (''why'', JNull),
               (''metadata'', JObj [])]]
   \<and> recommend defaults (services ''[]'') (request 1 0 (6/10) True)
     = Ok200 [[(''id'', JStr ''a''), (''title'', JStr ''Heat''), (''year'', JNull),
               (''genres'', JArr []), (''plot'', JStr ''p''), (''metadata'', JObj []),
               (''score'', JNum (9 / 10)), (''why'', JNull)]]
   \<and> retrieve defaults (services ''[]'') (request 1 0 (6/10) True)
     = Inr (joinAnswers (services ''[]'') [''crime''],
            [[(''id'', JStr ''a''), (''title'', JStr ''Heat''), (''year'', JNull),
              (''genres'', JArr []), (''plot'', JStr ''p''), (''metadata'', JObj []),
              (''score'', JNum (9 / 10))]])"
proof -
  let ?row = "[(''id'', JStr ''a''), (''title'', JStr ''Heat''), (''year'', JNull),
              (''genres'', JArr []), (''plot'', JStr ''p''), (''metadata'', JObj []),
              (''score'', JNum (9 / 10))]"
  let ?plain = "[(''id'', JStr ''a''), (''title'', JStr ''Heat''), (''year'', JNull),
               (''genres'', JArr []), (''score'', JNum (9 / 10)), (''why'', JNull),
               (''metadata'', JObj [])]"
  have r: "retrieve defaults (services ''[]'') (request 1 0 (6/10) rr)
             = Inr (joinAnswers (services ''[]'') [''crime''], [?row])" for rr
    by (simp add: request_def retrieve_def or_default_def services_def defaults_def
        match_movies_def three_films_def line_distance_def film_def result_row_def js_slice_def)
  have v: "RecommendBodySchema (request 1 0 (6/10) rr)" for rr
    by (simp add: RecommendBodySchema_def request_def)
  have plain: "recommend defaults (services ''[]'') (request 1 0 (6/10) False) = Ok200 [?plain]"
    using r[of False] v[of False]
    by (simp add: recommend_def project_def field_def) (simp add: request_def or_default_def)
  have merged: "recommend defaults (services ''[]'') (request 1 0 (6/10) True)
                  = Ok200 [AList.update ''why'' JNull ?row]"
    by (simp add: recommend_def RecommendBodySchema_def request_def retrieve_def or_default_def
      services_def defaults_def match_movies_def three_films_def line_distance_def film_def
      result_row_def js_slice_def field_def rerank_stage_def listForLLM_def parse_reranked_def
      parse_table_def withReason_def merge_reason_def)
  from candidate_fields_by_rerank[OF plain r[of False]]
  have "map fst ?plain = [''id'', ''title'', ''year'', ''genres'', ''score'', ''why'', ''metadata'']"
    by (simp add: request_def or_default_def project_keys)
  with plain merged r[of True] show ?thesis by simp
qed

section \<open>Replies of the reasoning model\<close>

lemma withReason_no_entries:
  "withReason lc (JArr []) sliced = Inr (map (AList.update ''why'' JNull) sliced)"
  unfolding withReason_def
  by (induction sliced) (simp_all add: merge_reason_def)

text \<open>
  A reply on which \<^verbatim>\<open>JSON.parse\<close> throws is tolerated: the inner \<^verbatim>\<open>catch\<close> leaves
  \<^verbatim>\<open>reranked\<close> empty and every candidate gets \<^verbatim>\<open>why: null\<close>.
\<close>

lemma syntax_error_tolerated:
  assumes "RecommendBodySchema b" and "or_default (rerank b) False"
    and "retrieve cfg rt b = Inr (profile, sliced)"
    and "listForLLM rt sliced = Inr list"
    and "generateContent rt (rerankPrompt profile list) = Inr text"
    and "JSON_parse rt (if truthy (JStr text) then text else ''[]'') = None"
  shows "recommend cfg rt b = Ok200 (map (AList.update ''why'' JNull) sliced)"
  using assms
  by (simp add: recommend_def rerank_stage_def parse_reranked_def withReason_no_entries)

text \<open>
  C5, on the code: a reply that is JSON but not an array is not a \<^verbatim>\<open>{title, reason}\<close>
  list, yet \<^verbatim>\<open>JSON.parse\<close> accepts it and the inner \<^verbatim>\<open>catch\<close> is not taken. The first
  \<^verbatim>\<open>reranked.find\<close> then throws a TypeError, which the outer \<^verbatim>\<open>catch\<close> turns into a
  500: the request fails although two candidates had been retrieved. The same happens
  for an array that holds \<^verbatim>\<open>null\<close>.
\<close>

theorem rerank_reply_not_a_list_fails:
  "JSON_parse (services ''{}'') ''{}'' = Some (JObj [])
   \<and> recommend defaults (services ''{}'') (request 2 0 (6/10) True) = Fail500 TypeError
   \<and> JSON_parse (services ''[null]'') ''[null]'' = Some (JArr [JNull])
   \<and> recommend defaults (services ''[null]'') (request 2 0 (6/10) True) = Fail500 TypeError"
  by (simp add: recommend_def RecommendBodySchema_def request_def retrieve_def or_default_def
      services_def defaults_def match_movies_def three_films_def line_distance_def film_def
      result_row_def js_slice_def field_def rerank_stage_def listForLLM_def parse_reranked_def
      parse_table_def withReason_def merge_reason_def title_matches_def)

section \<open>The store replaces a row sent with its key\<close>

lemma upsert_with_id_replaces:
  assumes "row_id r = Some k"
  shows "upsert_rows gen [r] tbl = ([(k, title r)], AList.update k (columns r) tbl)"
    and "snd (upsert_rows gen [r] (snd (upsert_rows gen [r] tbl))) = snd (upsert_rows gen [r] tbl)"
  using assms by (simp_all add: Let_def)

end
